theory Spec2Isabelle
  imports Main "HOL-Library.AList" "HOL-Library.Sublist"
begin

section \<open>Exceptions and text\<close>

text \<open>
  A Python \<^verbatim>\<open>str\<close> is a sequence of Unicode code points: the model's \<open>pystr\<close> is a
  list of natural numbers. \<open>lit\<close> gives the text of a literal of the program, \<open>code\<close> the
  code point of one of its characters.
\<close>

type_synonym pystr = "nat list"

definition code :: "char \<Rightarrow> nat" where
  "code c = of_char c"

definition lit :: "string \<Rightarrow> pystr" where
  "lit cs = map code cs"

text \<open>
  The program raises \<^verbatim>\<open>ValueError\<close> itself and relies on the exceptions of
  the interpreter and of \<^verbatim>\<open>datetime\<close>. An exception is a value carrying its
  message; a method that can raise returns \<open>exn + 'a\<close>, with \<open>Inl\<close> the exception.
\<close>

datatype exn =
    ValueError pystr
  | IndexError pystr
  | KeyError pystr
  | OverflowError pystr

fun exn_str :: "exn \<Rightarrow> pystr" where
  "exn_str (ValueError m) = m"
| "exn_str (IndexError m) = m"
| "exn_str (KeyError m) = m"
| "exn_str (OverflowError m) = m"

text \<open>
  The class \<^verbatim>\<open>\d\<close> of \<^verbatim>\<open>re\<close> on a \<^verbatim>\<open>str\<close> matches every Unicode decimal digit
  (category Nd), and \<^verbatim>\<open>int\<close> reads every one of them. In the Unicode database the
  decimal digits come in runs of ten, the digits 0 to 9 of one script in order.
  \<open>digit_zeros\<close> lists the code point of the zero of each run, from Unicode 14.0, the
  database of CPython 3.11: 48 is the run \<^verbatim>\<open>0\<close> to \<^verbatim>\<open>9\<close>, 1632 the Arabic-Indic digits,
  65296 the fullwidth digits.
\<close>

definition digit_zeros :: "nat list" where
  "digit_zeros =
     [48, 1632, 1776, 1984, 2406, 2534, 2662, 2790, 2918, 3046, 3174, 3302, 3430, 3558,
      3664, 3792, 3872, 4160, 4240, 6112, 6160, 6470, 6608, 6784, 6800, 6992, 7088, 7232,
      7248, 42528, 43216, 43264, 43472, 43504, 43600, 44016, 65296, 66720, 68912, 69734,
      69872, 69942, 70096, 70384, 70736, 70864, 71248, 71360, 71472, 71904, 72016, 72784,
      73040, 73120, 92768, 92864, 93008, 120782, 120792, 120802, 120812, 120822, 123200,
      123632, 125264, 130032]"

definition in_run :: "nat \<Rightarrow> nat \<Rightarrow> bool" where
  "in_run c z = (z \<le> c \<and> c < z + 10)"

definition isdigit :: "nat \<Rightarrow> bool" where
  "isdigit c = list_ex (in_run c) digit_zeros"

text \<open>\<^verbatim>\<open>re.sub(r'\D', '', s)\<close>: every character that is not a digit is deleted.\<close>

definition strip_non_digits :: "pystr \<Rightarrow> pystr" where
  "strip_non_digits s = filter isdigit s"

text \<open>
  \<^verbatim>\<open>str.isspace\<close>, the white space that \<^verbatim>\<open>strip\<close> and \<^verbatim>\<open>int\<close> cut off.
\<close>

definition isspace :: "nat \<Rightarrow> bool" where
  "isspace c =
     (c \<in> set [9, 10, 11, 12, 13, 28, 29, 30, 31, 32, 133, 160, 5760, 8192, 8193, 8194, 8195,
               8196, 8197, 8198, 8199, 8200, 8201, 8202, 8232, 8233, 8239, 8287, 12288])"

text \<open>Decimal digits and numerals, as \<^verbatim>\<open>int(s)\<close> and \<^verbatim>\<open>str(n)\<close> read and write them.\<close>

definition digit_val :: "nat \<Rightarrow> int" where
  "digit_val c = (case find (in_run c) digit_zeros of Some z \<Rightarrow> int (c - z) | None \<Rightarrow> 0)"

definition digit_char :: "nat \<Rightarrow> nat" where
  "digit_char k = code (CHR ''0'') + k"

fun digits_val :: "int \<Rightarrow> pystr \<Rightarrow> int" where
  "digits_val acc [] = acc"
| "digits_val acc (c # cs) = digits_val (acc * 10 + digit_val c) cs"

text \<open>
  \<^verbatim>\<open>int(s)\<close> on the texts that the groups of the date pattern can match: white space
  before the numeral is skipped, the rest is a run of digits.
\<close>

definition py_int :: "pystr \<Rightarrow> int" where
  "py_int s = digits_val 0 (dropWhile isspace s)"

fun str_nat :: "nat \<Rightarrow> pystr" where
  "str_nat n = (if n < 10 then [digit_char n] else str_nat (n div 10) @ [digit_char (n mod 10)])"

definition str_int :: "int \<Rightarrow> pystr" where
  "str_int i = (if i < 0 then code (CHR ''-'') # str_nat (nat (- i)) else str_nat (nat i))"

text \<open>The conversion \<^verbatim>\<open>%02d\<close>: zeros on the left up to the width.\<close>

definition zero_pad :: "nat \<Rightarrow> int \<Rightarrow> pystr" where
  "zero_pad w i = (let s = str_int i in replicate (w - length s) (code (CHR ''0'')) @ s)"

section \<open>Calendar dates\<close>

text \<open>
  \<^verbatim>\<open>datetime.date\<close>, from the library's \<^verbatim>\<open>datetime.py\<close>: the helper functions keep
  their names without the leading underscore. The integer division and remainder of
  Python round towards minus infinity, as \<open>div\<close> and \<open>mod\<close> on \<open>int\<close> do.
\<close>

record date =
  year :: int
  month :: int
  day :: int

definition MINYEAR :: int where "MINYEAR = 1"
definition MAXYEAR :: int where "MAXYEAR = 9999"
definition MAXORDINAL :: int where "MAXORDINAL = 3652059"

definition DAYS_IN_MONTH :: "int list" where
  "DAYS_IN_MONTH = [-1, 31, 28, 31, 30, 31, 30, 31, 31, 30, 31, 30, 31]"

definition DAYS_BEFORE_MONTH :: "int list" where
  "DAYS_BEFORE_MONTH = [-1, 0, 31, 59, 90, 120, 151, 181, 212, 243, 273, 304, 334]"

definition is_leap :: "int \<Rightarrow> bool" where
  "is_leap y = (y mod 4 = 0 \<and> (y mod 100 \<noteq> 0 \<or> y mod 400 = 0))"

definition days_before_year :: "int \<Rightarrow> int" where
  "days_before_year yr = (let y = yr - 1 in y * 365 + y div 4 - y div 100 + y div 400)"

definition days_in_month :: "int \<Rightarrow> int \<Rightarrow> int" where
  "days_in_month y m = (if m = 2 \<and> is_leap y then 29 else DAYS_IN_MONTH ! nat m)"

definition days_before_month :: "int \<Rightarrow> int \<Rightarrow> int" where
  "days_before_month y m = DAYS_BEFORE_MONTH ! nat m + (if m > 2 \<and> is_leap y then 1 else 0)"

definition ymd2ord :: "int \<Rightarrow> int \<Rightarrow> int \<Rightarrow> int" where
  "ymd2ord y m d = days_before_year y + days_before_month y m + d"

text \<open>The constructor \<^verbatim>\<open>date(year, month, day)\<close> checks its fields.\<close>

definition date_new :: "int \<Rightarrow> int \<Rightarrow> int \<Rightarrow> exn + date" where
  "date_new y m d =
     (if \<not> (MINYEAR \<le> y \<and> y \<le> MAXYEAR) then
        Inl (ValueError (lit ''year '' @ str_int y @ lit '' is out of range''))
      else if \<not> (1 \<le> m \<and> m \<le> 12) then Inl (ValueError (lit ''month must be in 1..12''))
      else if \<not> (1 \<le> d \<and> d \<le> days_in_month y m) then
        Inl (ValueError (lit ''day is out of range for month''))
      else Inr \<lparr>year = y, month = m, day = d\<rparr>)"

text \<open>The dates that the constructor accepts.\<close>

definition valid_date :: "date \<Rightarrow> bool" where
  "valid_date d =
     (MINYEAR \<le> year d \<and> year d \<le> MAXYEAR \<and> 1 \<le> month d \<and> month d \<le> 12
      \<and> 1 \<le> day d \<and> day d \<le> days_in_month (year d) (month d))"

text \<open>\<^verbatim>\<open>d.replace(year=y)\<close> builds a new date from the changed fields.\<close>

definition replace_year :: "date \<Rightarrow> int \<Rightarrow> exn + date" where
  "replace_year d y = date_new y (month d) (day d)"

definition toordinal :: "date \<Rightarrow> int" where
  "toordinal d = ymd2ord (year d) (month d) (day d)"

definition weekday :: "date \<Rightarrow> int" where
  "weekday d = (toordinal d + 6) mod 7"

text \<open>Dates compare as the tuples \<^verbatim>\<open>(year, month, day)\<close>.\<close>

definition date_lt :: "date \<Rightarrow> date \<Rightarrow> bool" where
  "date_lt a b =
     (year a < year b \<or> (year a = year b \<and>
        (month a < month b \<or> (month a = month b \<and> day a < day b))))"

text \<open>\<^verbatim>\<open>(a - b).days\<close>\<close>

definition days_between :: "date \<Rightarrow> date \<Rightarrow> int" where
  "days_between a b = toordinal a - toordinal b"

definition ord2ymd :: "int \<Rightarrow> int \<times> int \<times> int" where
  "ord2ymd n0 =
     (let n = n0 - 1;
          n400 = n div 146097; n = n mod 146097;
          yr = n400 * 400 + 1;
          n100 = n div 36524; n = n mod 36524;
          n4 = n div 1461; n = n mod 1461;
          n1 = n div 365; n = n mod 365;
          yr = yr + n100 * 100 + n4 * 4 + n1
      in if n1 = 4 \<or> n100 = 4 then (yr - 1, 12, 31)
         else
           let leapyear = (n1 = 3 \<and> (n4 \<noteq> 24 \<or> n100 = 3));
               mth = (n + 50) div 32;
               preceding = DAYS_BEFORE_MONTH ! nat mth + (if mth > 2 \<and> leapyear then 1 else 0)
           in if preceding > n then
                let mth = mth - 1;
                    preceding = preceding
                      - (DAYS_IN_MONTH ! nat mth + (if mth = 2 \<and> leapyear then 1 else 0))
                in (yr, mth, n - preceding + 1)
              else (yr, mth, n - preceding + 1))"

definition fromordinal :: "int \<Rightarrow> date" where
  "fromordinal n = (case ord2ymd n of (y, m, d) \<Rightarrow> \<lparr>year = y, month = m, day = d\<rparr>)"

text \<open>\<^verbatim>\<open>d + timedelta(days=k)\<close>\<close>

definition date_add :: "date \<Rightarrow> int \<Rightarrow> exn + date" where
  "date_add d k =
     (let ord = toordinal d + k
      in if 0 < ord \<and> ord \<le> MAXORDINAL then Inr (fromordinal ord)
         else Inl (OverflowError (lit ''date value out of range'')))"

text \<open>
  \<^verbatim>\<open>d.strftime("%d.%m.%Y")\<close>: day and month on two digits, and the year as the C
  library of the platform writes it. The model follows glibc, which writes the year
  without zeros on the left (\<^verbatim>\<open>999\<close> for the year 999); from the year 1000 on,
  every platform writes the same four digits.
\<close>

definition strftime :: "date \<Rightarrow> pystr" where
  "strftime d = zero_pad 2 (day d) @ lit ''.'' @ zero_pad 2 (month d) @ lit ''.'' @ str_int (year d)"

subsection \<open>Parsing a date\<close>

text \<open>
  \<^verbatim>\<open>datetime.strptime(s, "%d.%m.%Y")\<close> compiles the format to the regular expression
  \<^verbatim>\<open>(?P<d>3[0-1]|[1-2]\d|0[1-9]|[1-9]| [1-9])\.(?P<m>1[0-2]|0[1-9]|[1-9])\.(?P<Y>\d\d\d\d)\<close>,
  matches it at the start of the text, refuses text left over after the match, converts
  the three groups with \<^verbatim>\<open>int\<close> and builds the date, whose constructor checks the
  calendar. Each of the functions below matches one group and returns the matched text
  and the rest. The alternatives of a group are tried in the order of the pattern. An
  alternative of two characters matches only when the second one is a digit or the first
  one is a blank, so when the literal dot fails after it, the one-character alternative
  fails before the dot as well: the first alternative that matches is the only one that
  can lead to a match.
\<close>

fun re_d :: "pystr \<Rightarrow> (pystr \<times> pystr) option" where
  "re_d (a # b # r) =
     (if a = code (CHR ''3'') \<and> b \<in> set (lit ''01'') then Some ([a, b], r)
      else if a \<in> set (lit ''12'') \<and> isdigit b then Some ([a, b], r)
      else if a = code (CHR ''0'') \<and> b \<in> set (lit ''123456789'') then Some ([a, b], r)
      else if a \<in> set (lit ''123456789'') then Some ([a], b # r)
      else if a = code (CHR '' '') \<and> b \<in> set (lit ''123456789'') then Some ([a, b], r)
      else None)"
| "re_d [a] = (if a \<in> set (lit ''123456789'') then Some ([a], []) else None)"
| "re_d [] = None"

fun re_m :: "pystr \<Rightarrow> (pystr \<times> pystr) option" where
  "re_m (a # b # r) =
     (if a = code (CHR ''1'') \<and> b \<in> set (lit ''012'') then Some ([a, b], r)
      else if a = code (CHR ''0'') \<and> b \<in> set (lit ''123456789'') then Some ([a, b], r)
      else if a \<in> set (lit ''123456789'') then Some ([a], b # r)
      else None)"
| "re_m [a] = (if a \<in> set (lit ''123456789'') then Some ([a], []) else None)"
| "re_m [] = None"

fun re_Y :: "pystr \<Rightarrow> (pystr \<times> pystr) option" where
  "re_Y (a # b # c # d # r) =
     (if isdigit a \<and> isdigit b \<and> isdigit c \<and> isdigit d then Some ([a, b, c, d], r) else None)"
| "re_Y _ = None"

fun re_dot :: "pystr \<Rightarrow> pystr option" where
  "re_dot (a # r) = (if a = code (CHR ''.'') then Some r else None)"
| "re_dot [] = None"

text \<open>The whole pattern: the three groups and the text after the match.\<close>

definition format_regex_match :: "pystr \<Rightarrow> (pystr \<times> pystr \<times> pystr \<times> pystr) option" where
  "format_regex_match s =
     (case re_d s of None \<Rightarrow> None | Some (d, r1) \<Rightarrow>
      case re_dot r1 of None \<Rightarrow> None | Some r2 \<Rightarrow>
      case re_m r2 of None \<Rightarrow> None | Some (m, r3) \<Rightarrow>
      case re_dot r3 of None \<Rightarrow> None | Some r4 \<Rightarrow>
      case re_Y r4 of None \<Rightarrow> None | Some (y, r5) \<Rightarrow> Some (d, m, y, r5))"

text \<open>
  \<^verbatim>\<open>repr\<close> of a text that has no quote, no backslash and no character that cannot be
  printed: the text between two quotes. The parser formats its first message with it; the
  program shows that message only for a text that \<open>strftime\<close> wrote (\<^verbatim>\<open>Birthday\<close>
  replaces the messages of the parser by its own), and such a text is of that kind.
\<close>

definition py_repr :: "pystr \<Rightarrow> pystr" where
  "py_repr s = [39] @ s @ [39]"

definition strptime :: "pystr \<Rightarrow> exn + date" where
  "strptime data_string =
     (case format_regex_match data_string of
        None \<Rightarrow>
          Inl (ValueError (lit ''time data '' @ py_repr data_string
                 @ lit '' does not match format '' @ py_repr (lit ''%d.%m.%Y'')))
      | Some (d, m, y, rest) \<Rightarrow>
          if rest \<noteq> [] then Inl (ValueError (lit ''unconverted data remains: '' @ rest))
          else date_new (py_int y) (py_int m) (py_int d))"

text \<open>
  The texts that the three groups of the date pattern match: a day of one or two
  characters, a month of one or two characters, a year of four digits. In the second place
  of the days 10 to 29 and in the year the pattern has \<^verbatim>\<open>\d\<close>, which is any decimal
  digit; the other places are the characters \<^verbatim>\<open>0\<close> to \<^verbatim>\<open>9\<close> or the blank.
\<close>

definition day_text :: "pystr \<Rightarrow> bool" where
  "day_text s =
     (case s of
        [a] \<Rightarrow> a \<in> set (lit ''123456789'')
      | [a, b] \<Rightarrow>
          (a = code (CHR ''3'') \<and> b \<in> set (lit ''01''))
          \<or> (a \<in> set (lit ''12'') \<and> isdigit b)
          \<or> (a \<in> set (lit ''0 '') \<and> b \<in> set (lit ''123456789''))
      | _ \<Rightarrow> False)"

definition month_text :: "pystr \<Rightarrow> bool" where
  "month_text s =
     (case s of
        [a] \<Rightarrow> a \<in> set (lit ''123456789'')
      | [a, b] \<Rightarrow>
          (a = code (CHR ''1'') \<and> b \<in> set (lit ''012''))
          \<or> (a = code (CHR ''0'') \<and> b \<in> set (lit ''123456789''))
      | _ \<Rightarrow> False)"

definition year_text :: "pystr \<Rightarrow> bool" where
  "year_text s = (length s = 4 \<and> list_all isdigit s)"

text \<open>
  The pattern \<^verbatim>\<open>DD.MM.YYYY\<close> as the specification words it: ten characters, a day
  01 to 31 and a month 01 to 12 of two digits each, a year of four digits, and two dots.
\<close>

definition DD_MM_YYYY :: "pystr \<Rightarrow> bool" where
  "DD_MM_YYYY s =
     (length s = 10 \<and> s ! 2 = code (CHR ''.'') \<and> s ! 5 = code (CHR ''.'')
      \<and> list_all (\<lambda>c. c \<in> set (lit ''0123456789'')) (take 2 s @ take 2 (drop 3 s) @ drop 6 s)
      \<and> 1 \<le> py_int (take 2 s) \<and> py_int (take 2 s) \<le> 31
      \<and> 1 \<le> py_int (take 2 (drop 3 s)) \<and> py_int (take 2 (drop 3 s)) \<le> 12)"

section \<open>Validated value types\<close>

text \<open>
  \<^verbatim>\<open>Field\<close> only stores a value. \<^verbatim>\<open>Name\<close> and \<^verbatim>\<open>Phone\<close> are
  modelled by the text they hold; the constructors return that text or raise. The kinds
  of failure are the \<^verbatim>\<open>ValueError\<close>s with the program's four messages.
\<close>

definition InvalidName :: exn where
  "InvalidName = ValueError (lit ''Name cannot be empty.'')"

definition InvalidPhone :: exn where
  "InvalidPhone = ValueError (lit ''Phone number must contain exactly 10 digits.'')"

definition InvalidBirthday :: exn where
  "InvalidBirthday = ValueError (lit ''Invalid date format. Use DD.MM.YYYY'')"

definition PhoneNotFound :: exn where
  "PhoneNotFound = ValueError (lit ''Old phone number not found.'')"

definition Name :: "pystr \<Rightarrow> exn + pystr" where
  "Name name = (if name = [] then Inl InvalidName else Inr name)"

definition is_valid :: "pystr \<Rightarrow> bool" where
  "is_valid number = (length number = 10)"

definition Phone :: "pystr \<Rightarrow> exn + pystr" where
  "Phone number =
     (let number = strip_non_digits number
      in if \<not> is_valid number then Inl InvalidPhone else Inr number)"

text \<open>
  A \<^verbatim>\<open>Birthday\<close> holds the parsed date and, as its value, the text it was built from.
  Every \<^verbatim>\<open>ValueError\<close> of the parser is caught and replaced.
\<close>

record Birthday =
  bday_date :: date
  bday_value :: pystr

definition Birthday :: "pystr \<Rightarrow> exn + Birthday" where
  "Birthday v =
     (case strptime v of
        Inl (ValueError _) \<Rightarrow> Inl InvalidBirthday
      | Inl e \<Rightarrow> Inl e
      | Inr d \<Rightarrow> Inr \<lparr>bday_date = d, bday_value = v\<rparr>)"

section \<open>Contact records\<close>

record Record =
  name :: pystr
  phones :: "pystr list"
  birthday :: "Birthday option"

definition Record :: "pystr \<Rightarrow> exn + Record" where
  "Record n =
     (case Name n of
        Inl e \<Rightarrow> Inl e
      | Inr v \<Rightarrow> Inr \<lparr>name = v, phones = [], birthday = None\<rparr>)"

definition add_phone :: "Record \<Rightarrow> pystr \<Rightarrow> exn + Record" where
  "add_phone self phone_number =
     (case Phone phone_number of
        Inl e \<Rightarrow> Inl e
      | Inr phone \<Rightarrow> Inr (self\<lparr>phones := phones self @ [phone]\<rparr>))"

definition remove_phone :: "Record \<Rightarrow> pystr \<Rightarrow> Record" where
  "remove_phone self phone_number =
     (let clean_number = strip_non_digits phone_number
      in self\<lparr>phones := [phone \<leftarrow> phones self. phone \<noteq> clean_number]\<rparr>)"

text \<open>
  The loop of \<^verbatim>\<open>edit_phone\<close> over \<^verbatim>\<open>enumerate(self.phones)\<close>: at the first phone
  equal to \<open>clean_old\<close> the new phone is built, which may raise, and is written at that
  index; when the loop runs out, the method raises.
\<close>

fun edit_phone_loop :: "pystr \<Rightarrow> pystr \<Rightarrow> pystr list \<Rightarrow> (nat \<times> pystr) list \<Rightarrow> exn + pystr list" where
  "edit_phone_loop clean_old new_number ps [] = Inl PhoneNotFound"
| "edit_phone_loop clean_old new_number ps ((idx, phone) # rest) =
     (if phone = clean_old then
        (case Phone new_number of
           Inl e \<Rightarrow> Inl e
         | Inr p \<Rightarrow> Inr (ps[idx := p]))
      else edit_phone_loop clean_old new_number ps rest)"

definition edit_phone :: "Record \<Rightarrow> pystr \<Rightarrow> pystr \<Rightarrow> exn + Record" where
  "edit_phone self old_number new_number =
     (let clean_old = strip_non_digits old_number
      in case edit_phone_loop clean_old new_number (phones self) (enumerate 0 (phones self)) of
           Inl e \<Rightarrow> Inl e
         | Inr ps \<Rightarrow> Inr (self\<lparr>phones := ps\<rparr>))"

fun find_phone_loop :: "pystr \<Rightarrow> pystr list \<Rightarrow> pystr option" where
  "find_phone_loop clean_number [] = None"
| "find_phone_loop clean_number (phone # rest) =
     (if phone = clean_number then Some phone else find_phone_loop clean_number rest)"

definition find_phone :: "Record \<Rightarrow> pystr \<Rightarrow> pystr option" where
  "find_phone self phone_number = find_phone_loop (strip_non_digits phone_number) (phones self)"

definition add_birthday :: "Record \<Rightarrow> pystr \<Rightarrow> exn + Record" where
  "add_birthday self date_str =
     (case Birthday date_str of
        Inl e \<Rightarrow> Inl e
      | Inr b \<Rightarrow> Inr (self\<lparr>birthday := Some b\<rparr>))"

text \<open>\<^verbatim>\<open>sep.join(xs)\<close>\<close>

fun join :: "pystr \<Rightarrow> pystr list \<Rightarrow> pystr" where
  "join sep [] = []"
| "join sep [x] = x"
| "join sep (x # y # xs) = x @ sep @ join sep (y # xs)"

definition Record_str :: "Record \<Rightarrow> pystr" where
  "Record_str self =
     (let phones_text = join (lit ''; '') (phones self);
          bday = (case birthday self of
                    Some b \<Rightarrow> lit '', birthday: '' @ bday_value b
                  | None \<Rightarrow> [])
      in lit ''Contact name: '' @ name self @ lit '', phones: '' @ phones_text @ bday)"

section \<open>The address book\<close>

text \<open>
  The book is a dictionary from names to records. Its order of iteration is the order in
  which the keys were first stored, so it is an association list with distinct keys:
  storing under a key that is present replaces the value in place, storing under a new
  key appends (\<open>AList.update\<close>).

  A record is a mutable object. The program stores a record in the book only when it has
  just built it for that key, so every record object is reached through exactly one key,
  and a method that changes the object found under a key changes the value at that key:
  \<open>AList.update\<close> again, which keeps the position.
\<close>

type_synonym AddressBook = "(pystr \<times> Record) list"

definition add_record :: "AddressBook \<Rightarrow> Record \<Rightarrow> AddressBook" where
  "add_record book record = AList.update (name record) record book"

definition find_record :: "AddressBook \<Rightarrow> pystr \<Rightarrow> Record option" where
  "find_record book n = map_of book n"

definition delete_record :: "AddressBook \<Rightarrow> pystr \<Rightarrow> AddressBook" where
  "delete_record book n = (if n \<in> fst ` set book then AList.delete n book else book)"

definition book_values :: "AddressBook \<Rightarrow> Record list" where
  "book_values book = map snd book"

subsection \<open>Upcoming birthdays\<close>

text \<open>
  One dictionary of the result list, \<^verbatim>\<open>{"name": ..., "congratulation_date": ...}\<close>.
\<close>

record congratulation =
  cg_name :: pystr
  congratulation_date :: pystr

text \<open>
  The body of the loop of \<^verbatim>\<open>get_upcoming_birthdays\<close> for one record: the exception
  it raises, or the dictionary it appends, if any. \<open>today\<close> is the value of
  \<^verbatim>\<open>datetime.today().date()\<close>.
\<close>

definition upcoming_birthday :: "date \<Rightarrow> Record \<Rightarrow> exn + congratulation option" where
  "upcoming_birthday today record =
     (case birthday record of
        None \<Rightarrow> Inr None
      | Some b \<Rightarrow>
          let birthday_str = strftime (bday_date b)
          in case strptime birthday_str of
               Inl e \<Rightarrow> Inl e
             | Inr bd \<Rightarrow>
                 (case replace_year bd (year today) of
                    Inl e \<Rightarrow> Inl e
                  | Inr birthday_this_year \<Rightarrow>
                      (case (if date_lt birthday_this_year today
                             then replace_year birthday_this_year (year today + 1)
                             else Inr birthday_this_year) of
                         Inl e \<Rightarrow> Inl e
                       | Inr birthday_this_year \<Rightarrow>
                           let days_diffrence = days_between birthday_this_year today
                           in if 0 \<le> days_diffrence \<and> days_diffrence \<le> 7 then
                                (case (if weekday birthday_this_year = 5
                                       then date_add birthday_this_year 2
                                       else if weekday birthday_this_year = 6
                                       then date_add birthday_this_year 1
                                       else Inr birthday_this_year) of
                                   Inl e \<Rightarrow> Inl e
                                 | Inr cdate \<Rightarrow>
                                     Inr (Some \<lparr>cg_name = name record,
                                       congratulation_date = strftime cdate\<rparr>))
                              else Inr None)))"

fun upcoming_loop :: "date \<Rightarrow> Record list \<Rightarrow> congratulation list \<Rightarrow> exn + congratulation list" where
  "upcoming_loop today [] upcoming_birthdays = Inr upcoming_birthdays"
| "upcoming_loop today (record # rest) upcoming_birthdays =
     (case upcoming_birthday today record of
        Inl e \<Rightarrow> Inl e
      | Inr None \<Rightarrow> upcoming_loop today rest upcoming_birthdays
      | Inr (Some c) \<Rightarrow> upcoming_loop today rest (upcoming_birthdays @ [c]))"

definition get_upcoming_birthdays :: "date \<Rightarrow> AddressBook \<Rightarrow> exn + congratulation list" where
  "get_upcoming_birthdays today book = upcoming_loop today (book_values book) []"

section \<open>The command functions\<close>

text \<open>
  A command takes the argument list and the book and returns a text; what it does to the
  book stays done when it raises. The model of a command body returns the text or the
  exception, and the book as the body left it.
\<close>

type_synonym command_result = "(exn + pystr) \<times> AddressBook"

text \<open>
  The decorator \<^verbatim>\<open>input_error\<close>: the three kinds of exception it names become the text
  \<^verbatim>\<open>f"Error: {e}"\<close>, any other exception goes on to the caller.
\<close>

definition input_error :: "command_result \<Rightarrow> command_result" where
  "input_error res =
     (case res of
        (Inr s, book) \<Rightarrow> (Inr s, book)
      | (Inl (KeyError m), book) \<Rightarrow> (Inr (lit ''Error: '' @ m), book)
      | (Inl (ValueError m), book) \<Rightarrow> (Inr (lit ''Error: '' @ m), book)
      | (Inl (IndexError m), book) \<Rightarrow> (Inr (lit ''Error: '' @ m), book)
      | (Inl e, book) \<Rightarrow> (Inl e, book))"

text \<open>The exceptions that the decorator catches.\<close>

fun caught :: "exn \<Rightarrow> bool" where
  "caught (OverflowError m) = False"
| "caught e = True"

text \<open>
  The text that a decorated command returns for an outcome of its body, when the decorator
  catches the exception.
\<close>

definition error_text :: "exn + pystr \<Rightarrow> pystr" where
  "error_text res = (case res of Inl e \<Rightarrow> lit ''Error: '' @ exn_str e | Inr s \<Rightarrow> s)"

text \<open>The exceptions of the interpreter when a list is unpacked or indexed.\<close>

definition not_enough_values :: "pystr \<Rightarrow> nat \<Rightarrow> exn" where
  "not_enough_values expected got =
     ValueError (lit ''not enough values to unpack (expected '' @ expected @ lit '', got ''
       @ str_nat got @ lit '')'')"

definition too_many_values :: "pystr \<Rightarrow> exn" where
  "too_many_values expected = ValueError (lit ''too many values to unpack (expected '' @ expected @ lit '')'')"

definition index_out_of_range :: exn where
  "index_out_of_range = IndexError (lit ''list index out of range'')"

definition add_contact_body :: "pystr list \<Rightarrow> AddressBook \<Rightarrow> command_result" where
  "add_contact_body args book =
     (case args of
        n # phone # _ \<Rightarrow>
          (case (case find_record book n of
                   None \<Rightarrow>
                     (case Record n of
                        Inl e \<Rightarrow> Inl e
                      | Inr record \<Rightarrow> Inr (record, add_record book record, lit ''Contact added.''))
                 | Some record \<Rightarrow> Inr (record, book, lit ''Contact updated.'')) of
             Inl e \<Rightarrow> (Inl e, book)
           | Inr (record, book, message) \<Rightarrow>
               if phone \<noteq> [] then
                 (case add_phone record phone of
                    Inl e \<Rightarrow> (Inl e, book)
                  | Inr record \<Rightarrow> (Inr message, AList.update n record book))
               else (Inr message, book))
      | _ \<Rightarrow> (Inl (not_enough_values (lit ''at least 2'') (length args)), book))"

definition add_contact :: "pystr list \<Rightarrow> AddressBook \<Rightarrow> command_result" where
  "add_contact args book = input_error (add_contact_body args book)"

definition change_contact_body :: "pystr list \<Rightarrow> AddressBook \<Rightarrow> command_result" where
  "change_contact_body args book =
     (case args of
        [n, old, new] \<Rightarrow>
          (case find_record book n of
             None \<Rightarrow> (Inr (lit ''Contact not found.''), book)
           | Some record \<Rightarrow>
               (case edit_phone record old new of
                  Inl e \<Rightarrow> (Inl e, book)
                | Inr record \<Rightarrow> (Inr (lit ''Phone number updated.''), AList.update n record book)))
      | _ \<Rightarrow>
          (Inl (if length args < 3 then not_enough_values (lit ''3'') (length args)
                else too_many_values (lit ''3'')), book))"

definition change_contact :: "pystr list \<Rightarrow> AddressBook \<Rightarrow> command_result" where
  "change_contact args book = input_error (change_contact_body args book)"

definition show_phones_body :: "pystr list \<Rightarrow> AddressBook \<Rightarrow> command_result" where
  "show_phones_body args book =
     (case args of
        [] \<Rightarrow> (Inl index_out_of_range, book)
      | n # _ \<Rightarrow>
          (case find_record book n of
             Some record \<Rightarrow>
               (Inr (lit ''Phone numbers for '' @ n @ lit '': '' @ join (lit '', '') (phones record)), book)
           | None \<Rightarrow> (Inr (lit ''Contact not found.''), book)))"

definition show_phones :: "pystr list \<Rightarrow> AddressBook \<Rightarrow> command_result" where
  "show_phones args book = input_error (show_phones_body args book)"

definition show_all_body :: "AddressBook \<Rightarrow> command_result" where
  "show_all_body book =
     (let s = join [10] (map Record_str (book_values book))
      in (Inr (if s \<noteq> [] then s else lit ''Address book is empty.''), book))"

definition show_all :: "AddressBook \<Rightarrow> command_result" where
  "show_all book = input_error (show_all_body book)"

definition add_birthday_body :: "pystr list \<Rightarrow> AddressBook \<Rightarrow> command_result" where
  "add_birthday_body args book =
     (case args of
        [n, date_str] \<Rightarrow>
          (case find_record book n of
             None \<Rightarrow> (Inr (lit ''Contact not found.''), book)
           | Some record \<Rightarrow>
               (case add_birthday record date_str of
                  Inl e \<Rightarrow> (Inl e, book)
                | Inr record \<Rightarrow> (Inr (lit ''Birthday added.''), AList.update n record book)))
      | _ \<Rightarrow>
          (Inl (if length args < 2 then not_enough_values (lit ''2'') (length args)
                else too_many_values (lit ''2'')), book))"

definition add_birthday_cmd :: "pystr list \<Rightarrow> AddressBook \<Rightarrow> command_result" where
  "add_birthday_cmd args book = input_error (add_birthday_body args book)"

definition show_birthday_body :: "pystr list \<Rightarrow> AddressBook \<Rightarrow> command_result" where
  "show_birthday_body args book =
     (case args of
        [] \<Rightarrow> (Inl index_out_of_range, book)
      | n # _ \<Rightarrow>
          (case find_record book n of
             None \<Rightarrow> (Inr (lit ''Contact not found.''), book)
           | Some record \<Rightarrow>
               (case birthday record of
                  None \<Rightarrow> (Inr (lit ''Birthday not set.''), book)
                | Some b \<Rightarrow> (Inr (n @ [39] @ lit ''s birthday: '' @ bday_value b), book))))"

definition show_birthday :: "pystr list \<Rightarrow> AddressBook \<Rightarrow> command_result" where
  "show_birthday args book = input_error (show_birthday_body args book)"

text \<open>\<^verbatim>\<open>s.strip()\<close>: the white space is cut at both ends.\<close>

definition strip :: "pystr \<Rightarrow> pystr" where
  "strip s = rev (dropWhile isspace (rev (dropWhile isspace s)))"

fun birthdays_loop :: "congratulation list \<Rightarrow> pystr \<Rightarrow> pystr" where
  "birthdays_loop [] result = result"
| "birthdays_loop (user # rest) result =
     birthdays_loop rest
       (result @ cg_name user @ lit '' - '' @ congratulation_date user @ [10])"

definition birthdays_body :: "date \<Rightarrow> pystr list \<Rightarrow> AddressBook \<Rightarrow> command_result" where
  "birthdays_body today args book =
     (case get_upcoming_birthdays today book of
        Inl e \<Rightarrow> (Inl e, book)
      | Inr upcoming \<Rightarrow>
          if upcoming = [] then (Inr (lit ''No upcoming birthdays this week.''), book)
          else (Inr (strip (birthdays_loop upcoming (lit ''Upcoming birthdays:'' @ [10]))), book))"

definition birthdays :: "date \<Rightarrow> pystr list \<Rightarrow> AddressBook \<Rightarrow> command_result" where
  "birthdays today args book = input_error (birthdays_body today args book)"

section \<open>Text of the program\<close>

lemma isdigit_ascii:
  "c < 1632 \<Longrightarrow> isdigit c \<longleftrightarrow> 48 \<le> c \<and> c < 58"
  by (simp add: isdigit_def digit_zeros_def in_run_def)

lemma isdigit_run:
  "isdigit c \<longleftrightarrow> (\<exists>z \<in> set digit_zeros. z \<le> c \<and> c < z + 10)"
  by (simp add: isdigit_def list_ex_iff in_run_def)

section \<open>Phone construction\<close>

text \<open>
  Claim C4. For every text, \<open>Phone\<close> deletes the non-digits first; it raises
  \<open>InvalidPhone\<close> exactly when the remaining digit string does not have length 10,
  and otherwise holds that digit string: the digits of the text, in their order.
  \<^verbatim>\<open>(123) 456-7890\<close> gives \<^verbatim>\<open>1234567890\<close> and \<^verbatim>\<open>12345\<close> fails.
  A digit is what \<^verbatim>\<open>\d\<close> matches, a decimal digit of any script: the characters
  \<^verbatim>\<open>0\<close> to \<^verbatim>\<open>9\<close> are digits, and so are the Arabic-Indic digits (code points 1632
  to 1641), which \<open>Phone\<close> keeps as they are, without converting them.
\<close>

theorem Phone_ten_digits:
  "(Phone text = Inl InvalidPhone \<longleftrightarrow> length (strip_non_digits text) \<noteq> 10)
   \<and> (Phone text = Inr (strip_non_digits text) \<longleftrightarrow> length (strip_non_digits text) = 10)
   \<and> (Phone text = Inl InvalidPhone \<or> Phone text = Inr (strip_non_digits text))
   \<and> set (strip_non_digits text) = {c \<in> set text. isdigit c}
   \<and> subseq (strip_non_digits text) text
   \<and> strip_non_digits (strip_non_digits text) = strip_non_digits text
   \<and> set (lit ''0123456789'') \<subseteq> {c. isdigit c}
   \<and> Phone (lit ''(123) 456-7890'') = Inr (lit ''1234567890'')
   \<and> Phone (lit ''12345'') = Inl InvalidPhone
   \<and> Phone (lit ''12345'' @ [1637, 1638, 1639, 1640, 1641])
       = Inr (lit ''12345'' @ [1637, 1638, 1639, 1640, 1641])"
proof -
  have ex1: "Phone (lit ''(123) 456-7890'') = Inr (lit ''1234567890'')"
    by (simp add: Phone_def is_valid_def strip_non_digits_def isdigit_ascii lit_def code_def)
  have ex2: "Phone (lit ''12345'') = Inl InvalidPhone"
    by (simp add: Phone_def is_valid_def strip_non_digits_def isdigit_ascii lit_def code_def)
  have d: "isdigit 1637" "isdigit 1638" "isdigit 1639" "isdigit 1640" "isdigit 1641"
    by (simp_all add: isdigit_def digit_zeros_def in_run_def)
  have ex3: "Phone (lit ''12345'' @ [1637, 1638, 1639, 1640, 1641])
       = Inr (lit ''12345'' @ [1637, 1638, 1639, 1640, 1641])"
    using d by (simp add: Phone_def is_valid_def strip_non_digits_def isdigit_ascii lit_def code_def)
  have a: "set (lit ''0123456789'') \<subseteq> {c. isdigit c}"
    by (simp add: isdigit_ascii lit_def code_def)
  have s: "set (strip_non_digits text) = {c \<in> set text. isdigit c}"
    unfolding strip_non_digits_def by (rule set_eqI) simp
  have q: "subseq (strip_non_digits text) text"
    unfolding strip_non_digits_def by simp
  have i: "strip_non_digits (strip_non_digits text) = strip_non_digits text"
    unfolding strip_non_digits_def by simp
  have p: "Phone text =
      (if length (strip_non_digits text) = 10 then Inr (strip_non_digits text)
       else Inl InvalidPhone)"
    by (simp add: Phone_def is_valid_def Let_def)
  show ?thesis
    unfolding p using ex1 ex2 ex3 a s q i by simp
qed

theorem Phone_ten_digits_witness:
  "Phone (lit ''050-123-45'') = Inl InvalidPhone
   \<and> Phone (lit ''050-123-45-67'') = Inr (lit ''0501234567'')"
  using Phone_ten_digits [of "lit ''050-123-45''", THEN conjunct1]
    Phone_ten_digits [of "lit ''050-123-45-67''", THEN conjunct2, THEN conjunct1]
  by (simp add: strip_non_digits_def isdigit_ascii lit_def code_def)

section \<open>Editing and removing phones\<close>

lemma edit_phone_loop_enumerate:
  "edit_phone_loop c new ps (enumerate k xs) =
     (if c \<in> set xs then
        (case Phone new of
           Inl e \<Rightarrow> Inl e
         | Inr p \<Rightarrow> Inr (ps[k + length (takeWhile (\<lambda>p. p \<noteq> c) xs) := p]))
      else Inl PhoneNotFound)"
  by (induction xs arbitrary: k) (auto split: sum.splits)

lemma Phone_cases: "Phone t = Inl InvalidPhone \<or> Phone t = Inr (strip_non_digits t)"
  by (simp add: Phone_def Let_def)

lemma InvalidPhone_neq_PhoneNotFound: "InvalidPhone \<noteq> PhoneNotFound"
  by (simp add: InvalidPhone_def PhoneNotFound_def lit_def code_def)

lemma first_index_less:
  "c \<in> set xs \<Longrightarrow> length (takeWhile (\<lambda>p. p \<noteq> c) xs) < length xs
     \<and> xs ! length (takeWhile (\<lambda>p. p \<noteq> c) xs) = c"
  by (induction xs) auto

lemma first_index_first:
  "j < length (takeWhile (\<lambda>p. p \<noteq> c) xs) \<Longrightarrow> xs ! j \<noteq> c"
proof -
  assume j: "j < length (takeWhile (\<lambda>p. p \<noteq> c) xs)"
  then have "takeWhile (\<lambda>p. p \<noteq> c) xs ! j \<in> set (takeWhile (\<lambda>p. p \<noteq> c) xs)"
    by (rule nth_mem)
  then have "takeWhile (\<lambda>p. p \<noteq> c) xs ! j \<noteq> c"
    by (auto dest: set_takeWhileD)
  then show ?thesis using j by (simp add: takeWhile_nth)
qed

lemma first_index_props:
  assumes "c \<in> set xs"
  shows "length (takeWhile (\<lambda>p. p \<noteq> c) xs) < length xs
    \<and> xs ! length (takeWhile (\<lambda>p. p \<noteq> c) xs) = c
    \<and> (\<forall>j<length (takeWhile (\<lambda>p. p \<noteq> c) xs). xs ! j \<noteq> c)"
  using first_index_less[OF assms] by (simp add: first_index_first)

text \<open>
  Claim C6. \<open>edit_phone\<close> raises \<open>PhoneNotFound\<close> exactly when no phone of the record
  equals the digits of \<open>old\<close>. When one does, there is a first index \<open>i\<close> holding it, and
  the result is that of building the new phone: its exception \<open>InvalidPhone\<close>, or the record
  whose phone list differs at index \<open>i\<close> only, where it holds the new phone. These are the
  only three outcomes.
\<close>

theorem edit_phone_first_match:
  "(edit_phone r old new = Inl PhoneNotFound \<longleftrightarrow> strip_non_digits old \<notin> set (phones r))
   \<and> (strip_non_digits old \<in> set (phones r) \<longrightarrow>
        (\<exists>i < length (phones r). phones r ! i = strip_non_digits old
           \<and> (\<forall>j<i. phones r ! j \<noteq> strip_non_digits old)
           \<and> edit_phone r old new =
               (case Phone new of
                  Inl e \<Rightarrow> Inl e
                | Inr p \<Rightarrow> Inr (r\<lparr>phones := (phones r)[i := p]\<rparr>))))
   \<and> (edit_phone r old new = Inl PhoneNotFound \<or> edit_phone r old new = Inl InvalidPhone
        \<or> (\<exists>r'. edit_phone r old new = Inr r'))"
proof (intro conjI impI)
  let ?c = "strip_non_digits old"
  show "edit_phone r old new = Inl PhoneNotFound \<longleftrightarrow> ?c \<notin> set (phones r)"
    using Phone_cases[of new] InvalidPhone_neq_PhoneNotFound
    by (auto simp: edit_phone_def edit_phone_loop_enumerate Let_def split: sum.splits)
  show "edit_phone r old new = Inl PhoneNotFound \<or> edit_phone r old new = Inl InvalidPhone
        \<or> (\<exists>r'. edit_phone r old new = Inr r')"
    using Phone_cases[of new]
    by (auto simp: edit_phone_def edit_phone_loop_enumerate Let_def split: sum.splits)
  assume m: "?c \<in> set (phones r)"
  let ?i = "length (takeWhile (\<lambda>p. p \<noteq> ?c) (phones r))"
  have e: "edit_phone r old new =
               (case Phone new of
                  Inl e \<Rightarrow> Inl e
                | Inr p \<Rightarrow> Inr (r\<lparr>phones := (phones r)[?i := p]\<rparr>))"
    using m by (simp add: edit_phone_def edit_phone_loop_enumerate Let_def split: sum.splits)
  show "\<exists>i < length (phones r). phones r ! i = ?c
           \<and> (\<forall>j<i. phones r ! j \<noteq> ?c)
           \<and> edit_phone r old new =
               (case Phone new of
                  Inl e \<Rightarrow> Inl e
                | Inr p \<Rightarrow> Inr (r\<lparr>phones := (phones r)[i := p]\<rparr>))"
    using first_index_props[OF m] e by blast
qed

theorem edit_phone_first_match_witness:
  "strip_non_digits (lit ''111-111-1111'') \<in> set [lit ''1111111111'', lit ''2222222222'']
   \<and> edit_phone \<lparr>name = lit ''Ann'', phones = [lit ''1111111111'', lit ''2222222222''], birthday = None\<rparr>
         (lit ''111-111-1111'') (lit ''3333333333'')
       = Inr \<lparr>name = lit ''Ann'', phones = [lit ''3333333333'', lit ''2222222222''], birthday = None\<rparr>
   \<and> edit_phone \<lparr>name = lit ''Ann'', phones = [lit ''3333333333'', lit ''2222222222''], birthday = None\<rparr>
         (lit ''1111111111'') (lit ''3333333333'')
       = Inl PhoneNotFound
   \<and> edit_phone \<lparr>name = lit ''Ann'', phones = [lit ''1111111111'', lit ''2222222222''], birthday = None\<rparr>
         (lit ''111-111-1111'') (lit ''333'')
       = Inl InvalidPhone"
  using edit_phone_first_match
    [of "\<lparr>name = lit ''Ann'', phones = [lit ''3333333333'', lit ''2222222222''], birthday = None\<rparr>"
        "lit ''1111111111''" "lit ''3333333333''"]
  by (simp add: edit_phone_def Phone_def is_valid_def strip_non_digits_def isdigit_ascii lit_def code_def)

text \<open>
  Claim C7. \<open>remove_phone\<close> returns a record (it has no way to raise) whose phone list is
  the old one without any occurrence of the digits of the text: that value is not in the
  list any more, the list is a subsequence of the old one and holds every phone that differs
  from the value, in the old order; name and birthday are untouched.
\<close>

theorem remove_phone_all:
  "phones (remove_phone r text) = removeAll (strip_non_digits text) (phones r)
   \<and> strip_non_digits text \<notin> set (phones (remove_phone r text))
   \<and> subseq (phones (remove_phone r text)) (phones r)
   \<and> filter (\<lambda>p. p \<noteq> strip_non_digits text) (phones r) = phones (remove_phone r text)
   \<and> name (remove_phone r text) = name r
   \<and> birthday (remove_phone r text) = birthday r"
  by (simp add: remove_phone_def Let_def removeAll_filter_not_eq) (metis (mono_tags, lifting) filter_cong)

theorem remove_phone_all_witness:
  "phones (remove_phone
      \<lparr>name = lit ''Ann'', phones = [lit ''1111111111'', lit ''2222222222'', lit ''1111111111''], birthday = None\<rparr>
      (lit ''111-111-1111'')) = [lit ''2222222222'']
   \<and> phones (remove_phone
      \<lparr>name = lit ''Ann'', phones = [lit ''1111111111'', lit ''2222222222'', lit ''1111111111''], birthday = None\<rparr>
      (lit ''555'')) = [lit ''1111111111'', lit ''2222222222'', lit ''1111111111'']"
  using remove_phone_all
    [of "\<lparr>name = lit ''Ann'', phones = [lit ''1111111111'', lit ''2222222222'', lit ''1111111111''], birthday = None\<rparr>"
        "lit ''111-111-1111''", THEN conjunct1]
    remove_phone_all
    [of "\<lparr>name = lit ''Ann'', phones = [lit ''1111111111'', lit ''2222222222'', lit ''1111111111''], birthday = None\<rparr>"
        "lit ''555''", THEN conjunct1]
  by (simp add: strip_non_digits_def isdigit_ascii lit_def code_def)

section \<open>Storing and finding records\<close>

lemma no_entry:
  "k \<notin> fst ` set al \<Longrightarrow> filter (\<lambda>kv. fst kv = k) al = []"
  by (induction al) auto

lemma update_one_entry:
  "distinct (map fst al) \<Longrightarrow> length (filter (\<lambda>kv. fst kv = k) (AList.update k v al)) = 1"
  by (induction al) (auto simp: no_entry)

text \<open>
  Claim C8. In a book with distinct keys, after \<open>add_record book r\<close> the lookup of the name
  of \<open>r\<close> returns \<open>r\<close> itself, whatever was stored under that key before; the keys are still
  distinct, they are the old keys and the name of \<open>r\<close>, exactly one entry has that name, and
  the lookup of any other key is unchanged.
\<close>

theorem add_record_find:
  "distinct (map fst book) \<Longrightarrow>
     find_record (add_record book r) (name r) = Some r
     \<and> distinct (map fst (add_record book r))
     \<and> set (map fst (add_record book r)) = insert (name r) (set (map fst book))
     \<and> (\<forall>k. k \<noteq> name r \<longrightarrow> find_record (add_record book r) k = find_record book k)
     \<and> length (filter (\<lambda>kv. fst kv = name r) (add_record book r)) = 1"
proof -
  assume d: "distinct (map fst book)"
  have 1: "find_record (add_record book r) (name r) = Some r"
    by (simp add: find_record_def add_record_def update_conv')
  have 2: "distinct (map fst (add_record book r))"
    using d by (simp add: add_record_def distinct_update)
  have 3: "set (map fst (add_record book r)) = insert (name r) (set (map fst book))"
    by (simp add: add_record_def dom_update)
  have 4: "\<forall>k. k \<noteq> name r \<longrightarrow> find_record (add_record book r) k = find_record book k"
    by (simp add: find_record_def add_record_def update_conv')
  have 5: "length (filter (\<lambda>kv. fst kv = name r) (add_record book r)) = 1"
    unfolding add_record_def using d by (rule update_one_entry)
  show ?thesis using 1 2 3 4 5 by blast
qed

theorem add_record_find_witness:
  "distinct (map fst [(lit ''Ann'', \<lparr>name = lit ''Ann'', phones = [lit ''1111111111''], birthday = None\<rparr>),
                      (lit ''Bob'', \<lparr>name = lit ''Bob'', phones = [], birthday = None\<rparr>)])
   \<and> find_record
        (add_record [(lit ''Ann'', \<lparr>name = lit ''Ann'', phones = [lit ''1111111111''], birthday = None\<rparr>),
                     (lit ''Bob'', \<lparr>name = lit ''Bob'', phones = [], birthday = None\<rparr>)]
           \<lparr>name = lit ''Ann'', phones = [], birthday = None\<rparr>) (lit ''Ann'')
       = Some \<lparr>name = lit ''Ann'', phones = [], birthday = None\<rparr>
   \<and> add_record [(lit ''Ann'', \<lparr>name = lit ''Ann'', phones = [lit ''1111111111''], birthday = None\<rparr>),
                    (lit ''Bob'', \<lparr>name = lit ''Bob'', phones = [], birthday = None\<rparr>)]
           \<lparr>name = lit ''Ann'', phones = [], birthday = None\<rparr>
       = [(lit ''Ann'', \<lparr>name = lit ''Ann'', phones = [], birthday = None\<rparr>),
          (lit ''Bob'', \<lparr>name = lit ''Bob'', phones = [], birthday = None\<rparr>)]"
  using add_record_find
    [of "[(lit ''Ann'', \<lparr>name = lit ''Ann'', phones = [lit ''1111111111''], birthday = None\<rparr>),
          (lit ''Bob'', \<lparr>name = lit ''Bob'', phones = [], birthday = None\<rparr>)]"
        "\<lparr>name = lit ''Ann'', phones = [], birthday = None\<rparr>"]
  by (simp add: add_record_def lit_def code_def)

section \<open>The add command is not atomic\<close>

lemma update_absent:
  "map_of al k = None \<Longrightarrow> AList.update k v al = al @ [(k, v)]"
  by (induction al) (auto split: if_splits)

text \<open>
  Claim C10, amended. When the book has no record under \<open>N\<close>, and \<open>N\<close> and the phone text
  are not empty, and the digits of the phone text are not ten, \<open>add_contact\<close> returns the
  error text of \<open>InvalidPhone\<close> and leaves in the book a new record under \<open>N\<close>, at the end,
  with no phone and no birthday. The claim as stated fails for an empty phone text, which
  the command does not pass to \<open>add_phone\<close> (it answers \<^verbatim>\<open>Contact added.\<close>), and for an
  empty name, which \<open>Record\<close> refuses before anything is stored.
\<close>

theorem add_contact_not_atomic:
  assumes "find_record book N = None" and "N \<noteq> []" and "phone \<noteq> []"
    and "length (strip_non_digits phone) \<noteq> 10"
  shows "add_contact (N # phone # rest) book =
           (Inr (lit ''Error: Phone number must contain exactly 10 digits.''),
            book @ [(N, \<lparr>name = N, phones = [], birthday = None\<rparr>)])
         \<and> find_record (snd (add_contact (N # phone # rest) book)) N
             = Some \<lparr>name = N, phones = [], birthday = None\<rparr>"
proof -
  let ?r = "\<lparr>name = N, phones = [], birthday = None\<rparr>"
  have r: "Record N = Inr ?r"
    using assms(2) by (simp add: Record_def Name_def)
  have p: "add_phone ?r phone = Inl InvalidPhone"
    using assms(4) by (simp add: add_phone_def Phone_def is_valid_def Let_def)
  have u: "add_record book ?r = book @ [(N, ?r)]"
    using assms(1) by (simp add: add_record_def find_record_def update_absent)
  have b: "add_contact_body (N # phone # rest) book = (Inl InvalidPhone, book @ [(N, ?r)])"
    using assms(1,3) r p u by (simp add: add_contact_body_def)
  have a: "add_contact (N # phone # rest) book =
           (Inr (lit ''Error: Phone number must contain exactly 10 digits.''), book @ [(N, ?r)])"
    unfolding add_contact_def b by (simp add: input_error_def InvalidPhone_def lit_def)
  have f: "find_record (book @ [(N, ?r)]) N = Some ?r"
    using assms(1) by (simp add: find_record_def map_add_def)
  show ?thesis using a f by simp
qed

theorem add_contact_not_atomic_witness:
  "find_record [] (lit ''Bob'') = None \<and> (lit ''Bob'') \<noteq> [] \<and> (lit ''12345'') \<noteq> []
   \<and> length (strip_non_digits (lit ''12345'')) \<noteq> 10
   \<and> add_contact [lit ''Bob'', lit ''12345''] [] =
        (Inr (lit ''Error: Phone number must contain exactly 10 digits.''),
         [(lit ''Bob'', \<lparr>name = lit ''Bob'', phones = [], birthday = None\<rparr>)])"
  using add_contact_not_atomic [of "[]" "lit ''Bob''" "lit ''12345''" "[]"]
  by (simp add: find_record_def strip_non_digits_def isdigit_ascii lit_def code_def)

theorem add_contact_error_counterexample:
  "find_record [] (lit ''Bob'') = None \<and> length (strip_non_digits []) \<noteq> 10
   \<and> add_contact [lit ''Bob'', []] [] =
        (Inr (lit ''Contact added.''), [(lit ''Bob'', \<lparr>name = lit ''Bob'', phones = [], birthday = None\<rparr>)])
   \<and> find_record [] [] = None \<and> length (strip_non_digits (lit ''12345'')) \<noteq> 10
   \<and> add_contact [[], lit ''12345''] [] = (Inr (lit ''Error: Name cannot be empty.''), [])"
  by (simp add: add_contact_def add_contact_body_def find_record_def add_record_def Record_def
      Name_def InvalidName_def input_error_def strip_non_digits_def isdigit_ascii lit_def code_def)

section \<open>The range of dates\<close>

lemma month_cases:
  "1 \<le> (m::int) \<Longrightarrow> m \<le> 12 \<Longrightarrow>
     m = 1 \<or> m = 2 \<or> m = 3 \<or> m = 4 \<or> m = 5 \<or> m = 6 \<or> m = 7 \<or> m = 8 \<or> m = 9
     \<or> m = 10 \<or> m = 11 \<or> m = 12"
  by arith

lemma day_of_year_bounds:
  assumes "1 \<le> m" and "m \<le> 12" and "1 \<le> d" and "d \<le> days_in_month y m"
  shows "1 \<le> days_before_month y m + d
         \<and> days_before_month y m + d \<le> (if is_leap y then 366 else 365)"
  using month_cases[OF assms(1,2)] assms(3,4)
  by (elim disjE)
     (simp_all add: days_in_month_def days_before_month_def DAYS_IN_MONTH_def
        DAYS_BEFORE_MONTH_def split: if_splits)

lemma div_bounds:
  fixes z k :: int
  assumes "0 < k"
  shows "k * (z div k) \<le> z" and "z < k * (z div k) + k"
proof -
  have e: "z = k * (z div k) + z mod k" by simp
  have m: "0 \<le> z mod k" "z mod k < k" using assms by simp_all
  show "k * (z div k) \<le> z" using e m by linarith
  show "z < k * (z div k) + k" using e m by linarith
qed

lemma days_before_year_nonneg:
  assumes "1 \<le> y"
  shows "0 \<le> days_before_year y"
proof -
  define z q4 q100 q400 where "z = y - 1" and "q4 = z div 4" and "q100 = z div 100"
    and "q400 = z div 400"
  have z: "0 \<le> z" using assms by (simp add: z_def)
  have a: "q100 \<le> q4"
    unfolding q100_def q4_def using z by (intro zdiv_mono2) simp_all
  have b: "0 \<le> q400"
    unfolding q400_def using z by (simp add: pos_imp_zdiv_nonneg_iff)
  have "0 \<le> z * 365 + q4 - q100 + q400" using z a b by linarith
  then show ?thesis
    by (simp add: days_before_year_def Let_def z_def q4_def q100_def q400_def)
qed

lemma days_before_year_upper:
  assumes "1 \<le> y" and "y \<le> 9999"
  shows "days_before_year y + (if is_leap y then 366 else 365) \<le> 3652059"
proof (cases "y = 9999")
  case True
  then show ?thesis by (simp add: days_before_year_def is_leap_def)
next
  case False
  define z q4 q100 q400 where "z = y - 1" and "q4 = z div 4" and "q100 = z div 100"
    and "q400 = z div 400"
  have z: "z \<le> 9997" "0 \<le> z" using assms False by (simp_all add: z_def)
  have a: "4 * q4 \<le> z" unfolding q4_def by (rule div_bounds(1)) simp
  have b: "z < 100 * q100 + 100" unfolding q100_def by (rule div_bounds(2)) simp
  have c: "400 * q400 \<le> z" unfolding q400_def by (rule div_bounds(1)) simp
  have "z * 365 + q4 - q100 + q400 \<le> 3651693" using z a b c by linarith
  then have "days_before_year y \<le> 3651693"
    by (simp add: days_before_year_def Let_def z_def q4_def q100_def q400_def)
  then show ?thesis by simp
qed

lemma ymd2ord_bounds:
  assumes "1 \<le> y" and "y \<le> 9999" and "1 \<le> m" and "m \<le> 12"
    and "1 \<le> d" and "d \<le> days_in_month y m"
  shows "1 \<le> ymd2ord y m d \<and> ymd2ord y m d \<le> 3652059"
  using day_of_year_bounds[OF assms(3,4,5,6)] days_before_year_nonneg[OF assms(1)]
    days_before_year_upper[OF assms(1,2)]
  by (simp add: ymd2ord_def split: if_splits)

lemma toordinal_bounds:
  assumes "valid_date d"
  shows "1 \<le> toordinal d \<and> toordinal d \<le> MAXORDINAL"
  using assms ymd2ord_bounds[of "year d" "month d" "day d"]
  by (simp add: valid_date_def toordinal_def MINYEAR_def MAXYEAR_def MAXORDINAL_def)

lemma weekend_room:
  fixes n :: int
  assumes "n \<le> 3652059"
  shows "(n + 6) mod 7 = 5 \<Longrightarrow> n + 2 \<le> 3652059" and "(n + 6) mod 7 = 6 \<Longrightarrow> n + 1 \<le> 3652059"
  using assms by presburger+

lemma date_new_valid:
  "date_new y m d = Inr x \<Longrightarrow> valid_date x \<and> x = \<lparr>year = y, month = m, day = d\<rparr>"
  by (auto simp add: date_new_def valid_date_def split: if_splits)

lemma date_new_ValueError:
  "date_new y m d = Inl e \<Longrightarrow> \<exists>m. e = ValueError m"
  by (auto simp add: date_new_def split: if_splits)

lemma date_add_weekend:
  assumes "valid_date d"
  shows "weekday d = 5 \<Longrightarrow> date_add d 2 = Inr (fromordinal (toordinal d + 2))"
    and "weekday d = 6 \<Longrightarrow> date_add d 1 = Inr (fromordinal (toordinal d + 1))"
proof -
  have b: "1 \<le> toordinal d" "toordinal d \<le> 3652059"
    using toordinal_bounds[OF assms] by (simp_all add: MAXORDINAL_def)
  show "weekday d = 5 \<Longrightarrow> date_add d 2 = Inr (fromordinal (toordinal d + 2))"
    using b weekend_room(1)[OF b(2)] by (simp add: date_add_def weekday_def MAXORDINAL_def Let_def)
  show "weekday d = 6 \<Longrightarrow> date_add d 1 = Inr (fromordinal (toordinal d + 1))"
    using b weekend_room(2)[OF b(2)] by (simp add: date_add_def weekday_def MAXORDINAL_def Let_def)
qed

section \<open>The exceptions of the birthday query\<close>

lemma input_error_caught:
  "input_error (Inl e, b) = (if caught e then (Inr (lit ''Error: '' @ exn_str e), b) else (Inl e, b))"
  by (cases e) (simp_all add: input_error_def)

lemma input_error_text: "input_error (Inr s, b) = (Inr s, b)"
  by (simp add: input_error_def)

lemma strptime_ValueError: "strptime s = Inl e \<Longrightarrow> \<exists>m. e = ValueError m"
  by (auto simp add: strptime_def dest: date_new_ValueError split: option.splits if_splits)

lemma strptime_valid: "strptime s = Inr d \<Longrightarrow> valid_date d"
  by (auto simp add: strptime_def dest: date_new_valid split: option.splits if_splits)

lemma replace_year_ValueError: "replace_year d y = Inl e \<Longrightarrow> \<exists>m. e = ValueError m"
  unfolding replace_year_def by (rule date_new_ValueError)

lemma replace_year_valid:
  assumes "replace_year d y = Inr x"
  shows "valid_date x"
proof -
  have "date_new y (month d) (day d) = Inr x" using assms by (simp add: replace_year_def)
  from date_new_valid[OF this] show ?thesis by (rule conjunct1)
qed

lemma shift_weekend:
  assumes "valid_date a"
  shows "\<exists>c. (if weekday a = 5 then date_add a 2
              else if weekday a = 6 then date_add a 1 else Inr a) = Inr c"
  using date_add_weekend[OF assms] by simp

lemma upcoming_birthday_caught:
  assumes "upcoming_birthday today record = Inl e"
  shows "\<exists>m. e = ValueError m"
proof (cases "birthday record")
  case None
  then show ?thesis using assms by (simp add: upcoming_birthday_def)
next
  case (Some b)
  show ?thesis
  proof (cases "strptime (strftime (bday_date b))")
    case (Inl e1)
    then show ?thesis using assms Some strptime_ValueError[OF Inl]
      by (simp add: upcoming_birthday_def)
  next
    case bd: (Inr bd)
    show ?thesis
    proof (cases "replace_year bd (year today)")
      case (Inl e2)
      then show ?thesis using assms Some bd replace_year_ValueError[OF Inl]
        by (simp add: upcoming_birthday_def)
    next
      case t: (Inr t)
      show ?thesis
      proof (cases "if date_lt t today then replace_year t (year today + 1) else Inr t")
        case (Inl e3)
        then have "\<exists>m. e3 = ValueError m"
          by (auto dest: replace_year_ValueError split: if_splits)
        then show ?thesis using assms Some bd t Inl
          by (simp add: upcoming_birthday_def)
      next
        case a: (Inr a)
        have v: "valid_date a"
          using a replace_year_valid[OF t] by (auto dest: replace_year_valid split: if_splits)
        obtain c where c: "(if weekday a = 5 then date_add a 2
              else if weekday a = 6 then date_add a 1 else Inr a) = Inr c"
          using shift_weekend[OF v] by blast
        show ?thesis using assms Some bd t a c
          by (simp add: upcoming_birthday_def Let_def split: if_splits)
      qed
    qed
  qed
qed

lemma upcoming_loop_caught:
  "upcoming_loop today rs acc = Inl e \<Longrightarrow> \<exists>m. e = ValueError m"
proof (induction rs arbitrary: acc)
  case Nil
  then show ?case by simp
next
  case (Cons r rs)
  show ?case
  proof (cases "upcoming_birthday today r")
    case (Inl e1)
    then show ?thesis using Cons.prems upcoming_birthday_caught[OF Inl] by simp
  next
    case (Inr c)
    then show ?thesis using Cons by (cases c) auto
  qed
qed

lemma Name_caught: "Name n = Inl e \<Longrightarrow> caught e"
  by (auto simp add: Name_def InvalidName_def split: if_splits)

lemma Phone_caught: "Phone n = Inl e \<Longrightarrow> caught e"
  by (auto simp add: Phone_def InvalidPhone_def Let_def split: if_splits)

lemma Birthday_caught: "Birthday v = Inl e \<Longrightarrow> caught e"
  by (auto simp add: Birthday_def InvalidBirthday_def dest: strptime_ValueError
      split: sum.splits exn.splits)

section \<open>The command boundary\<close>

lemma input_error_result:
  assumes "\<And>e. fst res = Inl e \<Longrightarrow> caught e"
  shows "input_error res = (Inr (error_text (fst res)), snd res)"
proof (cases res)
  case (Pair r b)
  show ?thesis
  proof (cases r)
    case (Inl e)
    then have "caught e" using assms Pair by simp
    then show ?thesis using Pair Inl by (simp add: input_error_caught error_text_def)
  next
    case (Inr s)
    then show ?thesis using Pair by (simp add: input_error_text error_text_def)
  qed
qed

lemma Record_caught: "Record n = Inl e \<Longrightarrow> caught e"
  by (auto simp add: Record_def dest: Name_caught split: sum.splits)

lemma add_phone_caught: "add_phone r p = Inl e \<Longrightarrow> caught e"
  by (auto simp add: add_phone_def dest: Phone_caught split: sum.splits)

lemma add_birthday_caught: "add_birthday r p = Inl e \<Longrightarrow> caught e"
  by (auto simp add: add_birthday_def dest: Birthday_caught split: sum.splits)

lemma edit_phone_loop_caught: "edit_phone_loop c new ps xs = Inl e \<Longrightarrow> caught e"
  by (induction c new ps xs rule: edit_phone_loop.induct)
     (auto simp add: PhoneNotFound_def dest: Phone_caught split: sum.splits if_splits)

lemma edit_phone_caught: "edit_phone r old new = Inl e \<Longrightarrow> caught e"
  by (auto simp add: edit_phone_def Let_def dest: edit_phone_loop_caught split: sum.splits)

lemma unpack_caught: "caught (not_enough_values t n)" "caught (too_many_values t)"
  "caught index_out_of_range"
  by (simp_all add: not_enough_values_def too_many_values_def index_out_of_range_def)

lemma add_contact_body_caught: "fst (add_contact_body args book) = Inl e \<Longrightarrow> caught e"
  by (auto simp add: add_contact_body_def unpack_caught dest: Record_caught add_phone_caught
      split: list.splits option.splits sum.splits if_splits)

lemma change_contact_body_caught: "fst (change_contact_body args book) = Inl e \<Longrightarrow> caught e"
  by (auto simp add: change_contact_body_def unpack_caught dest: edit_phone_caught
      split: list.splits option.splits sum.splits if_splits)

lemma show_phones_body_caught: "fst (show_phones_body args book) = Inl e \<Longrightarrow> caught e"
  by (auto simp add: show_phones_body_def unpack_caught
      split: list.splits option.splits sum.splits if_splits)

lemma show_all_body_caught: "fst (show_all_body book) = Inl e \<Longrightarrow> caught e"
  by (simp add: show_all_body_def Let_def)

lemma add_birthday_body_caught: "fst (add_birthday_body args book) = Inl e \<Longrightarrow> caught e"
  by (auto simp add: add_birthday_body_def unpack_caught dest: add_birthday_caught
      split: list.splits option.splits sum.splits if_splits)

lemma show_birthday_body_caught: "fst (show_birthday_body args book) = Inl e \<Longrightarrow> caught e"
  by (auto simp add: show_birthday_body_def unpack_caught
      split: list.splits option.splits sum.splits if_splits)

lemma birthdays_body_caught: "fst (birthdays_body today args book) = Inl e \<Longrightarrow> caught e"
  by (auto simp add: birthdays_body_def get_upcoming_birthdays_def dest: upcoming_loop_caught
      split: sum.splits if_splits)

lemma few_add_contact:
  "length args < 2 \<Longrightarrow>
     add_contact_body args book = (Inl (not_enough_values (lit ''at least 2'') (length args)), book)"
  by (cases args rule: remdups_adj.cases) (simp_all add: add_contact_body_def)

lemma few_change_contact:
  "length args < 3 \<Longrightarrow>
     change_contact_body args book = (Inl (not_enough_values (lit ''3'') (length args)), book)"
  by (auto simp add: change_contact_body_def split: list.splits)

lemma few_add_birthday:
  "length args < 2 \<Longrightarrow>
     add_birthday_body args book = (Inl (not_enough_values (lit ''2'') (length args)), book)"
  by (auto simp add: add_birthday_body_def split: list.splits)

text \<open>
  Claim C9. Every command returns a text and the book, whatever the arguments, the book and
  the day: the exceptions that a body can raise are all among those that \<open>input_error\<close>
  catches, and the text is then \<^verbatim>\<open>Error: \<close> followed by the message of the exception.
  That covers the four validation failures, whose texts are given, and the argument lists
  that are too short, which raise when they are unpacked or indexed. In the birthday query
  the addition of one or two days cannot leave the range of dates, because the last day
  of the year 9999 is a Friday.
\<close>

theorem commands_return_text:
  "(length args < 2 \<longrightarrow> fst (add_contact args book)
       = Inr (lit ''Error: '' @ exn_str (not_enough_values (lit ''at least 2'') (length args))))
   \<and> (length args < 3 \<longrightarrow> fst (change_contact args book)
       = Inr (lit ''Error: '' @ exn_str (not_enough_values (lit ''3'') (length args))))
   \<and> (length args < 2 \<longrightarrow> fst (add_birthday_cmd args book)
       = Inr (lit ''Error: '' @ exn_str (not_enough_values (lit ''2'') (length args))))
   \<and> fst (show_phones [] book) = Inr (lit ''Error: list index out of range'')
   \<and> fst (show_birthday [] book) = Inr (lit ''Error: list index out of range'')
   \<and> add_contact args book
       = (Inr (error_text (fst (add_contact_body args book))), snd (add_contact_body args book))
   \<and> change_contact args book
       = (Inr (error_text (fst (change_contact_body args book))), snd (change_contact_body args book))
   \<and> show_phones args book
       = (Inr (error_text (fst (show_phones_body args book))), snd (show_phones_body args book))
   \<and> show_all book = (Inr (error_text (fst (show_all_body book))), snd (show_all_body book))
   \<and> add_birthday_cmd args book
       = (Inr (error_text (fst (add_birthday_body args book))), snd (add_birthday_body args book))
   \<and> show_birthday args book
       = (Inr (error_text (fst (show_birthday_body args book))), snd (show_birthday_body args book))
   \<and> birthdays today args book
       = (Inr (error_text (fst (birthdays_body today args book))),
          snd (birthdays_body today args book))
   \<and> error_text (Inl InvalidName) = lit ''Error: Name cannot be empty.''
   \<and> error_text (Inl InvalidPhone) = lit ''Error: Phone number must contain exactly 10 digits.''
   \<and> error_text (Inl InvalidBirthday) = lit ''Error: Invalid date format. Use DD.MM.YYYY''
   \<and> error_text (Inl PhoneNotFound) = lit ''Error: Old phone number not found.''"
proof -
  have c1: "add_contact args book
       = (Inr (error_text (fst (add_contact_body args book))), snd (add_contact_body args book))"
    unfolding add_contact_def by (rule input_error_result) (rule add_contact_body_caught)
  have c2: "change_contact args book
       = (Inr (error_text (fst (change_contact_body args book))), snd (change_contact_body args book))"
    unfolding change_contact_def by (rule input_error_result) (rule change_contact_body_caught)
  have c3: "show_phones args book
       = (Inr (error_text (fst (show_phones_body args book))), snd (show_phones_body args book))"
    unfolding show_phones_def by (rule input_error_result) (rule show_phones_body_caught)
  have c4: "show_all book = (Inr (error_text (fst (show_all_body book))), snd (show_all_body book))"
    unfolding show_all_def by (rule input_error_result) (rule show_all_body_caught)
  have c5: "add_birthday_cmd args book
       = (Inr (error_text (fst (add_birthday_body args book))), snd (add_birthday_body args book))"
    unfolding add_birthday_cmd_def by (rule input_error_result) (rule add_birthday_body_caught)
  have c6: "show_birthday args book
       = (Inr (error_text (fst (show_birthday_body args book))), snd (show_birthday_body args book))"
    unfolding show_birthday_def by (rule input_error_result) (rule show_birthday_body_caught)
  have c7: "birthdays today args book
       = (Inr (error_text (fst (birthdays_body today args book))),
          snd (birthdays_body today args book))"
    unfolding birthdays_def by (rule input_error_result) (rule birthdays_body_caught)
  have f1: "length args < 2 \<longrightarrow> fst (add_contact args book)
       = Inr (lit ''Error: '' @ exn_str (not_enough_values (lit ''at least 2'') (length args)))"
    unfolding c1 by (simp add: few_add_contact error_text_def)
  have f2: "length args < 3 \<longrightarrow> fst (change_contact args book)
       = Inr (lit ''Error: '' @ exn_str (not_enough_values (lit ''3'') (length args)))"
    unfolding c2 by (simp add: few_change_contact error_text_def)
  have f3: "length args < 2 \<longrightarrow> fst (add_birthday_cmd args book)
       = Inr (lit ''Error: '' @ exn_str (not_enough_values (lit ''2'') (length args)))"
    unfolding c5 by (simp add: few_add_birthday error_text_def)
  have f4: "fst (show_phones [] book) = Inr (lit ''Error: list index out of range'')"
    by (simp add: show_phones_def show_phones_body_def input_error_def index_out_of_range_def lit_def)
  have f5: "fst (show_birthday [] book) = Inr (lit ''Error: list index out of range'')"
    by (simp add: show_birthday_def show_birthday_body_def input_error_def index_out_of_range_def
        lit_def)
  have e1: "error_text (Inl InvalidName) = lit ''Error: Name cannot be empty.''"
    by (simp add: error_text_def InvalidName_def lit_def)
  have e2: "error_text (Inl InvalidPhone) = lit ''Error: Phone number must contain exactly 10 digits.''"
    by (simp add: error_text_def InvalidPhone_def lit_def)
  have e3: "error_text (Inl InvalidBirthday) = lit ''Error: Invalid date format. Use DD.MM.YYYY''"
    by (simp add: error_text_def InvalidBirthday_def lit_def)
  have e4: "error_text (Inl PhoneNotFound) = lit ''Error: Old phone number not found.''"
    by (simp add: error_text_def PhoneNotFound_def lit_def)
  from f1 f2 f3 f4 f5 c1 c2 c3 c4 c5 c6 c7 e1 e2 e3 e4 show ?thesis by blast
qed

theorem commands_return_text_witness:
  "length [lit ''Bob''] < 2
   \<and> fst (add_contact [lit ''Bob''] [])
       = Inr (lit ''Error: not enough values to unpack (expected at least 2, got 1)'')
   \<and> length [lit ''Bob'', lit ''1234567890''] < 3
   \<and> fst (change_contact [lit ''Bob'', lit ''1234567890''] [])
       = Inr (lit ''Error: not enough values to unpack (expected 3, got 2)'')
   \<and> length ([] :: pystr list) < 2
   \<and> fst (add_birthday_cmd [] [])
       = Inr (lit ''Error: not enough values to unpack (expected 2, got 0)'')"
  using commands_return_text [of "[lit ''Bob'']" "[]", THEN conjunct1]
    commands_return_text [of "[lit ''Bob'', lit ''1234567890'']" "[]", THEN conjunct2, THEN conjunct1]
    commands_return_text [of "[]" "[]", THEN conjunct2, THEN conjunct2, THEN conjunct1]
  by (simp add: not_enough_values_def digit_char_def lit_def code_def)

section \<open>The birthday query on a leap day\<close>

lemma strptime_leap_day:
  "strptime (strftime \<lparr>year = 2024, month = 2, day = 29\<rparr>)
     = Inr \<lparr>year = 2024, month = 2, day = 29\<rparr>"
  by (simp add: strftime_def zero_pad_def str_int_def digit_char_def
      strptime_def format_regex_match_def py_int_def isspace_def
      digit_val_def digit_zeros_def in_run_def isdigit_ascii date_new_def MINYEAR_def MAXYEAR_def
      days_in_month_def is_leap_def lit_def code_def)

text \<open>
  Claim C3 fails on the code. \<open>Birthday\<close> accepts \<^verbatim>\<open>29.02.2024\<close>; with that birthday in
  the book and a day of 2025, which is not a leap year, \<^verbatim>\<open>replace(year=2025)\<close> raises
  \<^verbatim>\<open>ValueError\<close>, the query raises it, and the command \<open>birthdays\<close> answers with the
  error text instead of the list.
\<close>

theorem leap_day_birthday_raises:
  "Birthday (lit ''29.02.2024'')
     = Inr \<lparr>bday_date = \<lparr>year = 2024, month = 2, day = 29\<rparr>, bday_value = lit ''29.02.2024''\<rparr>
   \<and> get_upcoming_birthdays \<lparr>year = 2025, month = 2, day = 25\<rparr>
        [(lit ''Ann'', \<lparr>name = lit ''Ann'', phones = [],
           birthday = Some \<lparr>bday_date = \<lparr>year = 2024, month = 2, day = 29\<rparr>,
                            bday_value = lit ''29.02.2024''\<rparr>\<rparr>)]
     = Inl (ValueError (lit ''day is out of range for month''))
   \<and> fst (birthdays \<lparr>year = 2025, month = 2, day = 25\<rparr> []
        [(lit ''Ann'', \<lparr>name = lit ''Ann'', phones = [],
           birthday = Some \<lparr>bday_date = \<lparr>year = 2024, month = 2, day = 29\<rparr>,
                            bday_value = lit ''29.02.2024''\<rparr>\<rparr>)])
     = Inr (lit ''Error: day is out of range for month'')"
proof -
  have a: "Birthday (lit ''29.02.2024'')
     = Inr \<lparr>bday_date = \<lparr>year = 2024, month = 2, day = 29\<rparr>, bday_value = lit ''29.02.2024''\<rparr>"
    by (simp add: Birthday_def strptime_def format_regex_match_def py_int_def isspace_def
        digit_val_def digit_zeros_def in_run_def isdigit_ascii date_new_def MINYEAR_def MAXYEAR_def
        days_in_month_def is_leap_def lit_def code_def)
  have b: "get_upcoming_birthdays \<lparr>year = 2025, month = 2, day = 25\<rparr>
        [(lit ''Ann'', \<lparr>name = lit ''Ann'', phones = [],
           birthday = Some \<lparr>bday_date = \<lparr>year = 2024, month = 2, day = 29\<rparr>,
                            bday_value = lit ''29.02.2024''\<rparr>\<rparr>)]
     = Inl (ValueError (lit ''day is out of range for month''))"
    by (simp add: get_upcoming_birthdays_def book_values_def upcoming_birthday_def
        strptime_leap_day replace_year_def date_new_def MINYEAR_def MAXYEAR_def days_in_month_def
        is_leap_def DAYS_IN_MONTH_def)
  have c: "fst (birthdays \<lparr>year = 2025, month = 2, day = 25\<rparr> []
        [(lit ''Ann'', \<lparr>name = lit ''Ann'', phones = [],
           birthday = Some \<lparr>bday_date = \<lparr>year = 2024, month = 2, day = 29\<rparr>,
                            bday_value = lit ''29.02.2024''\<rparr>\<rparr>)])
     = Inr (lit ''Error: day is out of range for month'')"
    unfolding birthdays_def birthdays_body_def b by (simp add: input_error_def lit_def)
  show ?thesis using a b c by simp
qed

section \<open>Birthday construction\<close>

lemma dot_code: "code (CHR ''.'') = 46"
  by (simp add: code_def)

lemma dot_not_digit: "\<not> isdigit 46"
  by (simp add: isdigit_ascii)

lemma day_text_cases:
  "day_text s \<longleftrightarrow>
     (\<exists>a. s = [a] \<and> a \<in> set (lit ''123456789''))
     \<or> (\<exists>a b. s = [a, b] \<and> ((a = code (CHR ''3'') \<and> b \<in> set (lit ''01''))
          \<or> (a \<in> set (lit ''12'') \<and> isdigit b)
          \<or> (a \<in> set (lit ''0 '') \<and> b \<in> set (lit ''123456789''))))"
  by (auto simp add: day_text_def split: list.splits)

lemma month_text_cases:
  "month_text s \<longleftrightarrow>
     (\<exists>a. s = [a] \<and> a \<in> set (lit ''123456789''))
     \<or> (\<exists>a b. s = [a, b] \<and> ((a = code (CHR ''1'') \<and> b \<in> set (lit ''012''))
          \<or> (a = code (CHR ''0'') \<and> b \<in> set (lit ''123456789''))))"
  by (auto simp add: month_text_def split: list.splits)

lemma year_text_cases:
  "year_text s \<longleftrightarrow> (\<exists>a b c d. s = [a, b, c, d] \<and> isdigit a \<and> isdigit b \<and> isdigit c \<and> isdigit d)"
proof
  assume "year_text s"
  then have l: "length s = 4" and d: "list_all isdigit s" by (simp_all add: year_text_def)
  from l obtain a b c d where "s = [a, b, c, d]"
    by (auto simp add: length_Suc_conv numeral_eq_Suc)
  then show "\<exists>a b c d. s = [a, b, c, d] \<and> isdigit a \<and> isdigit b \<and> isdigit c \<and> isdigit d"
    using d by simp
next
  assume "\<exists>a b c d. s = [a, b, c, d] \<and> isdigit a \<and> isdigit b \<and> isdigit c \<and> isdigit d"
  then show "year_text s" by (auto simp add: year_text_def)
qed

lemma re_d_sound: "re_d s = Some (D, r) \<Longrightarrow> s = D @ r \<and> day_text D"
  by (cases s rule: re_d.cases) (auto simp add: day_text_def lit_def code_def split: if_splits)

lemma re_m_sound: "re_m s = Some (M, r) \<Longrightarrow> s = M @ r \<and> month_text M"
  by (cases s rule: re_m.cases) (auto simp add: month_text_def lit_def code_def split: if_splits)

lemma re_Y_sound: "re_Y s = Some (Y, r) \<Longrightarrow> s = Y @ r \<and> year_text Y"
  by (cases s rule: re_Y.cases) (auto simp add: year_text_def split: if_splits)

lemma re_dot_sound: "re_dot s = Some r \<Longrightarrow> s = 46 # r"
  by (cases s rule: re_dot.cases) (auto simp add: code_def split: if_splits)

lemma re_d_complete: "day_text D \<Longrightarrow> re_d (D @ 46 # r) = Some (D, 46 # r)"
  unfolding day_text_cases
  by (elim disjE exE conjE) (auto simp add: lit_def code_def isdigit_ascii)

lemma re_m_complete: "month_text M \<Longrightarrow> re_m (M @ 46 # r) = Some (M, 46 # r)"
  unfolding month_text_cases
  by (elim disjE exE conjE) (auto simp add: lit_def code_def)

lemma re_Y_complete: "year_text Y \<Longrightarrow> re_Y Y = Some (Y, [])"
  unfolding year_text_cases by auto

lemma lit_dot: "lit ''.'' = [46]"
  by (simp add: lit_def code_def)

lemma date_new_iff:
  "date_new y m d =
     (if valid_date \<lparr>year = y, month = m, day = d\<rparr> then Inr \<lparr>year = y, month = m, day = d\<rparr>
      else Inl (case date_new y m d of Inl e \<Rightarrow> e))"
  by (simp add: date_new_def valid_date_def)

lemma format_regex_match_complete:
  assumes "day_text D" and "month_text M" and "year_text Y"
  shows "format_regex_match (D @ 46 # M @ 46 # Y) = Some (D, M, Y, [])"
  using re_d_complete[OF assms(1), of "M @ 46 # Y"] re_m_complete[OF assms(2), of Y]
    re_Y_complete[OF assms(3)]
  by (simp add: format_regex_match_def dot_code)

lemma format_regex_match_sound:
  assumes "format_regex_match s = Some (D, M, Y, r)"
  shows "s = D @ 46 # M @ 46 # Y @ r \<and> day_text D \<and> month_text M \<and> year_text Y"
proof -
  from assms obtain r1 r2 r3 r4 where
    1: "re_d s = Some (D, r1)" and 2: "re_dot r1 = Some r2" and 3: "re_m r2 = Some (M, r3)"
    and 4: "re_dot r3 = Some r4" and 5: "re_Y r4 = Some (Y, r)"
    by (auto simp add: format_regex_match_def split: option.splits prod.splits)
  show ?thesis
    using re_d_sound[OF 1] re_dot_sound[OF 2] re_m_sound[OF 3] re_dot_sound[OF 4] re_Y_sound[OF 5]
    by simp
qed

lemma Birthday_outcome:
  "Birthday v = (case strptime v of Inl e \<Rightarrow> Inl InvalidBirthday
                 | Inr d \<Rightarrow> Inr \<lparr>bday_date = d, bday_value = v\<rparr>)"
proof (cases "strptime v")
  case (Inl e)
  then show ?thesis using strptime_ValueError[OF Inl] by (auto simp add: Birthday_def)
next
  case (Inr d)
  then show ?thesis by (simp add: Birthday_def)
qed

lemma Birthday_accepts:
  assumes "day_text D" and "month_text M" and "year_text Y"
  shows "Birthday (D @ lit ''.'' @ M @ lit ''.'' @ Y) =
       (if valid_date \<lparr>year = py_int Y, month = py_int M, day = py_int D\<rparr>
        then Inr \<lparr>bday_date = \<lparr>year = py_int Y, month = py_int M, day = py_int D\<rparr>,
                  bday_value = D @ lit ''.'' @ M @ lit ''.'' @ Y\<rparr>
        else Inl InvalidBirthday)"
proof -
  have s: "strptime (D @ 46 # M @ 46 # Y) = date_new (py_int Y) (py_int M) (py_int D)"
    by (simp add: strptime_def format_regex_match_complete[OF assms])
  show ?thesis
  proof (cases "valid_date \<lparr>year = py_int Y, month = py_int M, day = py_int D\<rparr>")
    case True
    then have "date_new (py_int Y) (py_int M) (py_int D)
        = Inr \<lparr>year = py_int Y, month = py_int M, day = py_int D\<rparr>"
      by (subst date_new_iff) simp
    then show ?thesis using True s by (simp add: Birthday_outcome lit_dot)
  next
    case False
    then have "\<exists>e. date_new (py_int Y) (py_int M) (py_int D) = Inl e"
      by (subst date_new_iff) simp
    then show ?thesis using False s by (auto simp add: Birthday_outcome lit_dot)
  qed
qed

lemma Birthday_accepted_form:
  assumes "Birthday text = Inr b"
  shows "\<exists>D M Y. text = D @ lit ''.'' @ M @ lit ''.'' @ Y
           \<and> day_text D \<and> month_text M \<and> year_text Y
           \<and> valid_date \<lparr>year = py_int Y, month = py_int M, day = py_int D\<rparr>
           \<and> b = \<lparr>bday_date = \<lparr>year = py_int Y, month = py_int M, day = py_int D\<rparr>,
                   bday_value = text\<rparr>"
proof -
  from assms obtain d where d: "strptime text = Inr d" and b: "b = \<lparr>bday_date = d, bday_value = text\<rparr>"
    by (auto simp add: Birthday_outcome split: sum.splits)
  from d obtain D M Y where f: "format_regex_match text = Some (D, M, Y, [])"
    and n: "date_new (py_int Y) (py_int M) (py_int D) = Inr d"
    by (auto simp add: strptime_def split: option.splits prod.splits if_splits)
  have v: "valid_date d" "d = \<lparr>year = py_int Y, month = py_int M, day = py_int D\<rparr>"
    by (rule date_new_valid[OF n, THEN conjunct1]) (rule date_new_valid[OF n, THEN conjunct2])
  show ?thesis
    using format_regex_match_sound[OF f] v b by (auto simp add: lit_dot)
qed

lemma Birthday_two_outcomes:
  "Birthday text = Inl InvalidBirthday
   \<or> (\<exists>d. valid_date d \<and> Birthday text = Inr \<lparr>bday_date = d, bday_value = text\<rparr>)"
proof (cases "strptime text")
  case (Inl e)
  then show ?thesis by (simp add: Birthday_outcome)
next
  case (Inr d)
  then show ?thesis using strptime_valid[OF Inr] by (simp add: Birthday_outcome)
qed

lemma ascii_digit_cases:
  "c \<in> set (lit ''0123456789'') \<longleftrightarrow>
     c = 48 \<or> c = 49 \<or> c = 50 \<or> c = 51 \<or> c = 52 \<or> c = 53 \<or> c = 54 \<or> c = 55 \<or> c = 56 \<or> c = 57"
  by (simp add: lit_def code_def)

lemma digit_val_ascii:
  "digit_val 48 = 0" "digit_val 49 = 1" "digit_val 50 = 2" "digit_val 51 = 3" "digit_val 52 = 4"
  "digit_val 53 = 5" "digit_val 54 = 6" "digit_val 55 = 7" "digit_val 56 = 8" "digit_val 57 = 9"
  by (simp_all add: digit_val_def digit_zeros_def in_run_def)

lemma two_digits_day:
  assumes "a \<in> set (lit ''0123456789'')" and "b \<in> set (lit ''0123456789'')"
    and "1 \<le> py_int [a, b]" and "py_int [a, b] \<le> 31"
  shows "day_text [a, b]"
  using assms unfolding ascii_digit_cases
  by (elim disjE)
     (simp_all add: py_int_def isspace_def digit_val_ascii day_text_def lit_def code_def
        isdigit_ascii)

lemma two_digits_month:
  assumes "a \<in> set (lit ''0123456789'')" and "b \<in> set (lit ''0123456789'')"
    and "1 \<le> py_int [a, b]" and "py_int [a, b] \<le> 12"
  shows "month_text [a, b]"
  using assms unfolding ascii_digit_cases
  by (elim disjE)
     (simp_all add: py_int_def isspace_def digit_val_ascii month_text_def lit_def code_def)

lemma ascii_digit_isdigit: "c \<in> set (lit ''0123456789'') \<Longrightarrow> isdigit c"
  unfolding ascii_digit_cases by (elim disjE) (simp_all add: isdigit_ascii)

lemma length10:
  assumes "length s = 10"
  shows "\<exists>c0 c1 c2 c3 c4 c5 c6 c7 c8 c9. s = [c0, c1, c2, c3, c4, c5, c6, c7, c8, c9]"
proof -
  have "length s = Suc (Suc (Suc (Suc (Suc (Suc (Suc (Suc (Suc (Suc 0)))))))))"
    using assms by simp
  then show ?thesis by (auto simp add: length_Suc_conv)
qed

lemma DD_MM_YYYY_form:
  assumes "DD_MM_YYYY s"
  shows "s = take 2 s @ lit ''.'' @ take 2 (drop 3 s) @ lit ''.'' @ drop 6 s
         \<and> day_text (take 2 s) \<and> month_text (take 2 (drop 3 s)) \<and> year_text (drop 6 s)"
proof -
  from assms have "length s = 10" by (simp add: DD_MM_YYYY_def)
  from length10[OF this] obtain c0 c1 c2 c3 c4 c5 c6 c7 c8 c9
    where s: "s = [c0, c1, c2, c3, c4, c5, c6, c7, c8, c9]" by blast
  have t: "take 2 s = [c0, c1]" "take 2 (drop 3 s) = [c3, c4]" "drop 6 s = [c6, c7, c8, c9]"
    "s ! 2 = c2" "s ! 5 = c5"
    unfolding s by (simp_all add: numeral_2_eq_2 numeral_3_eq_3 eval_nat_numeral)
  from assms have dots: "c2 = 46" "c5 = 46"
    and dg: "c0 \<in> set (lit ''0123456789'')" "c1 \<in> set (lit ''0123456789'')"
      "c3 \<in> set (lit ''0123456789'')" "c4 \<in> set (lit ''0123456789'')"
      "c6 \<in> set (lit ''0123456789'')" "c7 \<in> set (lit ''0123456789'')"
      "c8 \<in> set (lit ''0123456789'')" "c9 \<in> set (lit ''0123456789'')"
    and d: "1 \<le> py_int [c0, c1]" "py_int [c0, c1] \<le> 31"
    and m: "1 \<le> py_int [c3, c4]" "py_int [c3, c4] \<le> 12"
    unfolding DD_MM_YYYY_def t by (simp_all add: dot_code)
  have y: "year_text [c6, c7, c8, c9]"
    using dg(5-8) by (simp add: year_text_def ascii_digit_isdigit)
  have e: "s = [c0, c1] @ lit ''.'' @ [c3, c4] @ lit ''.'' @ [c6, c7, c8, c9]"
    unfolding s using dots by (simp add: lit_dot)
  show ?thesis
    unfolding t using e two_digits_day[OF dg(1,2) d] two_digits_month[OF dg(3,4) m] y by simp
qed

lemma Birthday_examples:
  "Birthday (lit ''31.02.2024'') = Inl InvalidBirthday"
  "Birthday (lit ''2024-02-29'') = Inl InvalidBirthday"
  "Birthday (lit ''29.02.2024'')
     = Inr \<lparr>bday_date = \<lparr>year = 2024, month = 2, day = 29\<rparr>, bday_value = lit ''29.02.2024''\<rparr>"
  by (simp_all add: Birthday_outcome strptime_def format_regex_match_def py_int_def isspace_def
      digit_val_ascii isdigit_ascii date_new_def MINYEAR_def MAXYEAR_def
      days_in_month_def is_leap_def DAYS_IN_MONTH_def lit_def code_def)

text \<open>
  Claim C5, amended. \<open>Birthday\<close> accepts exactly the texts made of a day, a dot, a
  month, a dot and a year, where the day is \<^verbatim>\<open>01\<close> to \<^verbatim>\<open>31\<close> or one digit \<^verbatim>\<open>1\<close> to
  \<^verbatim>\<open>9\<close> alone or after a blank, the month is \<^verbatim>\<open>01\<close> to \<^verbatim>\<open>12\<close> or one digit \<^verbatim>\<open>1\<close> to
  \<^verbatim>\<open>9\<close>, the year has four digits, and the three numbers are a date of the calendar in
  the years 1 to 9999. Every text of the form \<^verbatim>\<open>DD.MM.YYYY\<close> is of that kind. Every
  other text raises \<open>InvalidBirthday\<close>. An accepted birthday holds the date and the text
  as it was given. \<^verbatim>\<open>31.02.2024\<close> and \<^verbatim>\<open>2024-02-29\<close> are refused and \<^verbatim>\<open>29.02.2024\<close> is
  accepted.
\<close>

theorem Birthday_accepted_texts:
  "(day_text D \<and> month_text M \<and> year_text Y \<longrightarrow>
      Birthday (D @ lit ''.'' @ M @ lit ''.'' @ Y) =
        (if valid_date \<lparr>year = py_int Y, month = py_int M, day = py_int D\<rparr>
         then Inr \<lparr>bday_date = \<lparr>year = py_int Y, month = py_int M, day = py_int D\<rparr>,
                   bday_value = D @ lit ''.'' @ M @ lit ''.'' @ Y\<rparr>
         else Inl InvalidBirthday))
   \<and> (Birthday text = Inr b \<longrightarrow>
        (\<exists>D M Y. text = D @ lit ''.'' @ M @ lit ''.'' @ Y
           \<and> day_text D \<and> month_text M \<and> year_text Y
           \<and> valid_date \<lparr>year = py_int Y, month = py_int M, day = py_int D\<rparr>
           \<and> b = \<lparr>bday_date = \<lparr>year = py_int Y, month = py_int M, day = py_int D\<rparr>,
                   bday_value = text\<rparr>))
   \<and> (DD_MM_YYYY text \<longrightarrow>
        text = take 2 text @ lit ''.'' @ take 2 (drop 3 text) @ lit ''.'' @ drop 6 text
        \<and> day_text (take 2 text) \<and> month_text (take 2 (drop 3 text)) \<and> year_text (drop 6 text))
   \<and> (Birthday text = Inl InvalidBirthday
        \<or> (\<exists>d. valid_date d \<and> Birthday text = Inr \<lparr>bday_date = d, bday_value = text\<rparr>))
   \<and> Birthday (lit ''31.02.2024'') = Inl InvalidBirthday
   \<and> Birthday (lit ''2024-02-29'') = Inl InvalidBirthday
   \<and> Birthday (lit ''29.02.2024'')
       = Inr \<lparr>bday_date = \<lparr>year = 2024, month = 2, day = 29\<rparr>, bday_value = lit ''29.02.2024''\<rparr>"
  using Birthday_accepts[of D M Y] Birthday_accepted_form[of "text" b] DD_MM_YYYY_form[of "text"]
    Birthday_two_outcomes[of "text"] Birthday_examples
  by blast

theorem Birthday_accepted_texts_witness:
  "day_text (lit ''29'') \<and> month_text (lit ''02'') \<and> year_text (lit ''2024'')
   \<and> Birthday (lit ''29'' @ lit ''.'' @ lit ''02'' @ lit ''.'' @ lit ''2024'')
       = Inr \<lparr>bday_date = \<lparr>year = 2024, month = 2, day = 29\<rparr>, bday_value = lit ''29.02.2024''\<rparr>
   \<and> day_text (lit ''31'') \<and> month_text (lit ''02'')
   \<and> Birthday (lit ''31'' @ lit ''.'' @ lit ''02'' @ lit ''.'' @ lit ''2024'') = Inl InvalidBirthday
   \<and> DD_MM_YYYY (lit ''29.02.2024'')
   \<and> day_text (take 2 (lit ''29.02.2024''))"
  using Birthday_accepted_texts [of "lit ''29''" "lit ''02''" "lit ''2024''", THEN conjunct1]
    Birthday_accepted_texts [of "lit ''31''" "lit ''02''" "lit ''2024''", THEN conjunct1]
    Birthday_accepted_texts [of _ _ _ "lit ''29.02.2024''", THEN conjunct2, THEN conjunct2,
      THEN conjunct1]
  by (simp add: day_text_def month_text_def year_text_def DD_MM_YYYY_def valid_date_def
      py_int_def isspace_def digit_val_ascii isdigit_ascii MINYEAR_def MAXYEAR_def
      days_in_month_def is_leap_def DAYS_IN_MONTH_def lit_def code_def)

text \<open>
  The claim as stated asks for two digits in the day and in the month. The text
  \<^verbatim>\<open>1.2.2024\<close> is not of the form \<^verbatim>\<open>DD.MM.YYYY\<close> and \<open>Birthday\<close> accepts it, as
  the first of February.
\<close>

theorem Birthday_one_digit_counterexample:
  "\<not> DD_MM_YYYY (lit ''1.2.2024'')
   \<and> Birthday (lit ''1.2.2024'')
       = Inr \<lparr>bday_date = \<lparr>year = 2024, month = 2, day = 1\<rparr>, bday_value = lit ''1.2.2024''\<rparr>"
  by (simp add: DD_MM_YYYY_def Birthday_outcome strptime_def format_regex_match_def py_int_def
      isspace_def digit_val_ascii isdigit_ascii date_new_def MINYEAR_def MAXYEAR_def
      days_in_month_def is_leap_def DAYS_IN_MONTH_def lit_def code_def)

end
